theory Spec2Isabelle
  imports Complex_Main "HOL-Library.AList" "HOL-Library.Sublist"
begin

section \<open>The training driver \<^verbatim>\<open>main.py\<close>\<close>

text \<open>
  The driver is a Python script. Exceptions are values of the type \<open>error\<close>; a
  statement that may raise returns \<open>error + 'a\<close> with \<open>Inl\<close> for the exception.
  Python floats (metric values, learning-rate factors) are modelled as real numbers:
  rounding, infinities and NaN are outside the model.
\<close>

datatype error =
    AttributeError string
  | KeyError string
  | NotImplementedError string
  | NameError string
  | TypeError string
  | AssertionError
  | ZeroDivisionError
  | FileNotFoundError string
  | YAMLError string

subsection \<open>Dataset split (\<^verbatim>\<open>main\<close>, lines 136 to 146)\<close>

text \<open>
  \<^verbatim>\<open>dataset[a:b]\<close> selects \<^verbatim>\<open>range(*slice(a, b).indices(len(dataset)))\<close>. A bound that
  is negative counts from the end, and every bound is clamped to \<open>0..len\<close>; an absent
  bound (\<open>None\<close>) is \<open>0\<close> for the start.
\<close>

definition clamp_index :: "int \<Rightarrow> int \<Rightarrow> nat" where
  "clamp_index n i =
     (if i < 0 then (if i + n < 0 then 0 else nat (i + n))
      else if n \<le> i then nat n else nat i)"

definition py_slice :: "'a list \<Rightarrow> int option \<Rightarrow> int \<Rightarrow> 'a list" where
  "py_slice xs lo hi =
     (let n = int (length xs);
          start = (case lo of None \<Rightarrow> 0 | Some a \<Rightarrow> clamp_index n a);
          stop = clamp_index n hi
      in map (\<lambda>i. xs ! i) [start..<stop])"

text \<open>
  \<^verbatim>\<open>assert len(dataset) > tr_sz + va_sz + te_sz\<close>, on the shuffled dataset and the three
  sizes read from the configuration (Python integers).
\<close>

definition split_assert :: "'a list \<Rightarrow> int \<Rightarrow> int \<Rightarrow> int \<Rightarrow> error + unit" where
  "split_assert dataset tr_sz va_sz te_sz =
     (if int (length dataset) > tr_sz + va_sz + te_sz then Inr () else Inl AssertionError)"

text \<open>The three slices taken after the assertion: train, validation, test.\<close>

definition split_dataset ::
  "'a list \<Rightarrow> int \<Rightarrow> int \<Rightarrow> int \<Rightarrow> error + ('a list \<times> 'a list \<times> 'a list)" where
  "split_dataset dataset tr_sz va_sz te_sz =
     (case split_assert dataset tr_sz va_sz te_sz of
        Inl e \<Rightarrow> Inl e
      | Inr _ \<Rightarrow>
          Inr (py_slice dataset None tr_sz,
               py_slice dataset (Some tr_sz) (tr_sz + va_sz),
               py_slice dataset (Some (tr_sz + va_sz)) (tr_sz + va_sz + te_sz)))"

subsection \<open>Learning-rate schedule (\<^verbatim>\<open>lr_lambda_fun\<close>, lines 180 to 190)\<close>

text \<open>
  \<^verbatim>\<open>bisect\<close> of the standard library is \<^verbatim>\<open>bisect_right\<close>: a binary search between
  \<open>lo = 0\<close> and \<open>hi = len(a)\<close>.
  \<^verbatim>\<open>
  while lo < hi:
      mid = (lo + hi) // 2
      if x < a[mid]: hi = mid
      else: lo = mid + 1
  return lo
  \<close>
\<close>

function bisect_loop :: "int list \<Rightarrow> int \<Rightarrow> nat \<Rightarrow> nat \<Rightarrow> nat" where
  "bisect_loop a x lo hi =
     (if lo < hi then
        (if x < a ! ((lo + hi) div 2) then bisect_loop a x lo ((lo + hi) div 2)
         else bisect_loop a x ((lo + hi) div 2 + 1) hi)
      else lo)"
  by pat_completeness auto
termination
  by (relation "measure (\<lambda>(a, x, lo, hi). hi - lo)") auto

definition bisect :: "int list \<Rightarrow> int \<Rightarrow> nat" where
  "bisect a x = bisect_loop a x 0 (length a)"

text \<open>The entries of \<^verbatim>\<open>config["optim"]\<close> that the schedule reads.\<close>

record optim =
  warmup_epochs :: int
  warmup_factor :: real
  lr_milestones :: "int list"
  lr_gamma :: real

text \<open>
  \<^verbatim>\<open>current_epoch / float(warmup_epochs)\<close> raises \<^verbatim>\<open>ZeroDivisionError\<close> when
  \<^verbatim>\<open>warmup_epochs\<close> is \<open>0\<close>.
\<close>

definition lr_lambda_fun :: "optim \<Rightarrow> int \<Rightarrow> error + real" where
  "lr_lambda_fun cfg current_epoch =
     (if current_epoch \<le> warmup_epochs cfg then
        (if warmup_epochs cfg = 0 then Inl ZeroDivisionError
         else
           (let alpha = real_of_int current_epoch / real_of_int (warmup_epochs cfg)
            in Inr (warmup_factor cfg * (1 - alpha) + alpha)))
      else
        (let idx = bisect (lr_milestones cfg) current_epoch
         in Inr (lr_gamma cfg ^ idx)))"

text \<open>
  The two counts of milestones that the schedule is compared with: the spec's words
  ("milestone epochs strictly less than the current epoch") and the milestones that the
  current epoch has reached.
\<close>

definition spec_milestones_below :: "int list \<Rightarrow> int \<Rightarrow> nat" where
  "spec_milestones_below ms e = length (filter (\<lambda>m. m < e) ms)"

definition milestones_reached :: "int list \<Rightarrow> int \<Rightarrow> nat" where
  "milestones_reached ms e = length (filter (\<lambda>m. m \<le> e) ms)"

text \<open>The configuration of the spec's example of the schedule.\<close>

definition example_optim :: optim where
  "example_optim =
     \<lparr>warmup_epochs = 5, warmup_factor = 2 / 10, lr_milestones = [10, 20], lr_gamma = 1 / 10\<rparr>"

subsection \<open>Best-metric bookkeeping and checkpoints (\<^verbatim>\<open>main\<close>, lines 115 and 198 to 233)\<close>

text \<open>
  A checkpoint is the dictionary passed to \<^verbatim>\<open>save_checkpoint\<close>: its keys in the order
  of the dictionary display, with the model, optimizer and normalizer states and the
  configuration as opaque values of type \<open>'a\<close>.
\<close>

datatype 'a ckval = CkInt int | CkFloat real | CkBlob 'a

type_synonym 'a checkpoint = "(string \<times> 'a ckval) list"

type_synonym 'a writes = "(string \<times> 'a checkpoint) list"

text \<open>
  What one epoch produces: the value returned by \<^verbatim>\<open>validate\<close> and the model and
  optimizer states at the time the checkpoint is taken.
\<close>

record 'a epoch_obs =
  mae_error :: real
  model_state :: 'a
  optimizer_state :: 'a

text \<open>What stays fixed over the run.\<close>

record 'a run_env =
  task_type :: string
  checkpoint_dir :: string
  normalizer_state :: 'a
  config_snapshot :: 'a

text \<open>
  The state of the loop: \<^verbatim>\<open>best_mae_error\<close> and the files written so far, oldest first.
\<close>

record 'a loop_state =
  best_mae_error :: real
  written :: "'a writes"

text \<open>
  \<^verbatim>\<open>os.path.join(dir, name)\<close> for a relative \<open>name\<close> and a directory that does not end
  in a separator, as \<^verbatim>\<open>checkpoints/<timestamp>\<close> is.
\<close>

definition path_join :: "string \<Rightarrow> string \<Rightarrow> string" where
  "path_join d name = d @ ''/'' @ name"

definition checkpoint_file :: "string \<Rightarrow> string" where
  "checkpoint_file d = path_join d ''checkpoint.pth.tar''"

definition best_file :: "string \<Rightarrow> string" where
  "best_file d = path_join d ''model_best.pth.tar''"

text \<open>
  Modelled from the spec: \<^verbatim>\<open>save_checkpoint\<close> of \<^verbatim>\<open>cgcnn.utils\<close> is not among the
  sources. The spec: the checkpoint record is "written every epoch; a second copy
  written only when the current epoch improves on best-so-far", into the checkpoint
  directory ("per-epoch checkpoint, best checkpoint"). The name of the best copy,
  \<^verbatim>\<open>model_best.pth.tar\<close>, is the one \<^verbatim>\<open>main\<close> reads back; the name of the per-epoch
  file is chosen here.
\<close>

definition save_checkpoint :: "'a checkpoint \<Rightarrow> bool \<Rightarrow> string \<Rightarrow> 'a writes \<Rightarrow> 'a writes" where
  "save_checkpoint state is_best d ws =
     ws @ [(checkpoint_file d, state)] @ (if is_best then [(best_file d, state)] else [])"

text \<open>Lines 208 to 213: the pair \<open>(is_best, best_mae_error)\<close> after the comparison.\<close>

definition remember_best :: "string \<Rightarrow> real \<Rightarrow> real \<Rightarrow> bool \<times> real" where
  "remember_best ty mae best =
     (if ty = ''regression'' then (mae < best, min mae best)
      else (mae > best, max mae best))"

text \<open>Lines 215 to 222: the dictionary built for \<^verbatim>\<open>save_checkpoint\<close>.\<close>

definition checkpoint_record :: "'a run_env \<Rightarrow> nat \<Rightarrow> 'a epoch_obs \<Rightarrow> real \<Rightarrow> 'a checkpoint" where
  "checkpoint_record env epoch ob best =
     [(''epoch'', CkInt (int epoch + 1)),
      (''state_dict'', CkBlob (model_state ob)),
      (''best_mae_error'', CkFloat best),
      (''optimizer'', CkBlob (optimizer_state ob)),
      (''normalizer'', CkBlob (normalizer_state env)),
      (''config'', CkBlob (config_snapshot env))]"

text \<open>The part of one iteration of the loop that follows \<^verbatim>\<open>scheduler.step()\<close>.\<close>

definition epoch_step :: "'a run_env \<Rightarrow> nat \<Rightarrow> 'a epoch_obs \<Rightarrow> 'a loop_state \<Rightarrow> 'a loop_state" where
  "epoch_step env epoch ob s =
     (let (is_best, best) = remember_best (task_type env) (mae_error ob) (best_mae_error s)
      in \<lparr>best_mae_error = best,
          written = save_checkpoint (checkpoint_record env epoch ob best) is_best
                      (checkpoint_dir env) (written s)\<rparr>)"

text \<open>
  \<^verbatim>\<open>for epoch in range(max_epochs)\<close>, over the observations of the epochs still to run.
\<close>

fun training_loop :: "'a run_env \<Rightarrow> nat \<Rightarrow> 'a epoch_obs list \<Rightarrow> 'a loop_state \<Rightarrow> 'a loop_state" where
  "training_loop env epoch [] s = s"
| "training_loop env epoch (ob # obs) s =
     training_loop env (Suc epoch) obs (epoch_step env epoch ob s)"

text \<open>
  Line 115 and the fresh checkpoint directory (\<^verbatim>\<open>os.makedirs\<close> raises when it exists).
\<close>

definition initial_state :: "'a loop_state" where
  "initial_state = \<lparr>best_mae_error = 10 ^ 10, written = []\<rparr>"

text \<open>\<^verbatim>\<open>torch.load(path)\<close>: the last record written to the path.\<close>

definition torch_load :: "'a writes \<Rightarrow> string \<Rightarrow> error + 'a checkpoint" where
  "torch_load ws path =
     (case map_of (rev ws) path of
        None \<Rightarrow> Inl (FileNotFoundError path)
      | Some ck \<Rightarrow> Inr ck)"

text \<open>
  The loop and the reload of the best checkpoint (lines 198 to 232); the result is the
  checkpoint whose parameters the test pass uses.
\<close>

definition train_and_reload :: "'a run_env \<Rightarrow> 'a epoch_obs list \<Rightarrow> error + 'a checkpoint" where
  "train_and_reload env obs =
     torch_load (written (training_loop env 0 obs initial_state))
       (best_file (checkpoint_dir env))"

subsection \<open>Export of the test pass (\<^verbatim>\<open>validate\<close> with \<^verbatim>\<open>test=True\<close>)\<close>

text \<open>
  The three lists of lines 313 to 315. A batch is given by its denormalised predictions
  and its targets, both flattened (\<^verbatim>\<open>view(-1).tolist()\<close>).
\<close>

record 'i test_lists =
  test_targets :: "real list"
  test_preds :: "real list"
  test_cif_ids :: "'i list"

definition test_lists_init :: "'i test_lists" where
  "test_lists_init = \<lparr>test_targets = [], test_preds = [], test_cif_ids = []\<rparr>"

text \<open>Lines 339 to 343, for one batch.\<close>

definition collect_batch :: "real list \<times> real list \<Rightarrow> 'i test_lists \<Rightarrow> 'i test_lists" where
  "collect_batch b acc =
     acc\<lparr>test_preds := test_preds acc @ fst b, test_targets := test_targets acc @ snd b\<rparr>"

fun collect_batches :: "(real list \<times> real list) list \<Rightarrow> 'i test_lists \<Rightarrow> 'i test_lists" where
  "collect_batches [] acc = acc"
| "collect_batches (b # bs) acc = collect_batches bs (collect_batch b acc)"

text \<open>
  Lines 388 to 391: the rows written to \<^verbatim>\<open>test_results.csv\<close>; \<^verbatim>\<open>zip\<close> stops at the
  shortest list.
\<close>

definition csv_rows :: "'i test_lists \<Rightarrow> ('i \<times> real \<times> real) list" where
  "csv_rows acc = zip (test_cif_ids acc) (zip (test_targets acc) (test_preds acc))"

definition test_results_csv :: "(real list \<times> real list) list \<Rightarrow> ('i \<times> real \<times> real) list" where
  "test_results_csv batches = csv_rows (collect_batches batches test_lists_init)"

subsection \<open>Configuration merge (module level, lines 66 to 78)\<close>

text \<open>
  What \<^verbatim>\<open>yaml.safe_load\<close> returns. A configuration is a dictionary with string keys, kept
  as an association list in insertion order.
\<close>

datatype yaml =
    YNull
  | YBool bool
  | YInt int
  | YFloat real
  | YStr string
  | YSeq "yaml list"
  | YMap "(string \<times> yaml) list"

type_synonym config = "(string \<times> yaml) list"

text \<open>\<^verbatim>\<open>"{}".format(type(v))\<close>, as in \<^verbatim>\<open><class 'str'>\<close>.\<close>

fun type_name :: "yaml \<Rightarrow> string" where
  "type_name YNull = ''NoneType''"
| "type_name (YBool _) = ''bool''"
| "type_name (YInt _) = ''int''"
| "type_name (YFloat _) = ''float''"
| "type_name (YStr _) = ''str''"
| "type_name (YSeq _) = ''list''"
| "type_name (YMap _) = ''dict''"

definition quoted :: "string \<Rightarrow> string" where
  "quoted s = [CHR 0x27] @ s @ [CHR 0x27]"

definition type_repr :: "yaml \<Rightarrow> string" where
  "type_repr v = ''<class '' @ quoted (type_name v) @ ''>''"

text \<open>\<^verbatim>\<open>config.get(k, default)\<close>, \<^verbatim>\<open>config.update(other)\<close> and \<^verbatim>\<open>config.pop(k)\<close>.\<close>

definition dict_get :: "config \<Rightarrow> string \<Rightarrow> yaml \<Rightarrow> yaml" where
  "dict_get c k dflt = (case map_of c k of None \<Rightarrow> dflt | Some v \<Rightarrow> v)"

definition dict_update :: "config \<Rightarrow> config \<Rightarrow> config" where
  "dict_update c other = fold (\<lambda>(k, v) acc. AList.update k v acc) other c"

definition dict_pop :: "config \<Rightarrow> string \<Rightarrow> error + config" where
  "dict_pop c k =
     (case map_of c k of
        None \<Rightarrow> Inl (KeyError k)
      | Some _ \<Rightarrow> Inr (AList.delete k c))"

text \<open>
  The loop of lines 74 to 76. \<open>files\<close> is the file system as the loop sees it: for an
  entry of the list, either the mapping that \<^verbatim>\<open>yaml.safe_load(open(include, "r"))\<close>
  returns or the exception that \<^verbatim>\<open>open\<close> or the parser raises there
  (\<^verbatim>\<open>FileNotFoundError\<close>, \<^verbatim>\<open>TypeError\<close>, a YAML error), which ends the loop and the run.
  Include documents are mappings: another document is outside this type.
\<close>

fun update_includes :: "(yaml \<Rightarrow> error + config) \<Rightarrow> yaml list \<Rightarrow> config \<Rightarrow> error + config" where
  "update_includes files [] c = Inr c"
| "update_includes files (include # rest) c =
     (case files include of
        Inl e \<Rightarrow> Inl e
      | Inr include_config \<Rightarrow> update_includes files rest (dict_update c include_config))"

definition merge_config :: "(yaml \<Rightarrow> error + config) \<Rightarrow> config \<Rightarrow> error + config" where
  "merge_config files c =
     (let includes = dict_get c ''includes'' (YSeq [])
      in case includes of
           YSeq incs \<Rightarrow>
             (case update_includes files incs c of
                Inl e \<Rightarrow> Inl e
              | Inr c' \<Rightarrow> dict_pop c' ''includes'')
         | _ \<Rightarrow>
             Inl (AttributeError
                    (''Includes must be a list, '' @ type_repr includes @ '' provided'')))"

subsection \<open>Dataset and metric selection (lines 118 to 134, 262 and 334)\<close>

datatype dataset_kind = UlissigroupCO | XieGrossmanMatProj | QM9

text \<open>The \<^verbatim>\<open>if\<close>/\<^verbatim>\<open>elif\<close> chain on \<^verbatim>\<open>config["task"]["dataset"]\<close>; the last branch is a bare
  \<^verbatim>\<open>raise NotImplementedError\<close>, whose message is empty.\<close>

definition select_dataset :: "string \<Rightarrow> error + dataset_kind" where
  "select_dataset name =
     (if name = ''ulissigroup_co'' then Inr UlissigroupCO
      else if name = ''xie_grossman_mat_proj'' then Inr XieGrossmanMatProj
      else if name = ''qm9'' then Inr QM9
      else Inl (NotImplementedError []))"

text \<open>
  The metric is selected at lines 262 and 334 by
  \<^verbatim>\<open>eval(config["task"]["metric"])(prediction, target)\<close>, inside \<^verbatim>\<open>train\<close> and
  \<^verbatim>\<open>validate\<close>. \<^verbatim>\<open>eval\<close> is Python's, not the driver's; the part of it modelled here is
  the evaluation of a string that is a single identifier. Such a name is looked up in
  the local variables of the calling function, then among the names of the module, then
  among the builtins, and raises \<^verbatim>\<open>NameError\<close> when none binds it. The value found is
  then called; calling a value that is not callable raises \<^verbatim>\<open>TypeError\<close>.
\<close>

text \<open>The values that the names are bound to, as far as the selection tells them apart.\<close>

datatype pyobj =
    Callable string
  | IntObj int
  | FloatObj real
  | BoolObj bool
  | NoneObj

fun obj_type_name :: "pyobj \<Rightarrow> string" where
  "obj_type_name (Callable _) = ''function''"
| "obj_type_name (IntObj _) = ''int''"
| "obj_type_name (FloatObj _) = ''float''"
| "obj_type_name (BoolObj _) = ''bool''"
| "obj_type_name NoneObj = ''NoneType''"

record namespaces =
  frame_locals :: "string \<rightharpoonup> pyobj"
  module_globals :: "string \<rightharpoonup> pyobj"
  builtin_names :: "string \<rightharpoonup> pyobj"

text \<open>
  An identifier in ASCII: a letter or an underscore, then letters, digits and underscores,
  and not a keyword. A string with another character (a space, an operator, a character
  beyond ASCII) is not one.
\<close>

definition is_letter :: "char \<Rightarrow> bool" where
  "is_letter c =
     (let n = (of_char c :: nat)
      in (65 \<le> n \<and> n \<le> 90) \<or> (97 \<le> n \<and> n \<le> 122) \<or> n = 95)"

definition is_digit :: "char \<Rightarrow> bool" where
  "is_digit c = (let n = (of_char c :: nat) in 48 \<le> n \<and> n \<le> 57)"

definition py_keywords :: "string list" where
  "py_keywords =
     [''False'', ''None'', ''True'', ''and'', ''as'', ''assert'', ''async'', ''await'',
      ''break'', ''class'', ''continue'', ''def'', ''del'', ''elif'', ''else'', ''except'',
      ''finally'', ''for'', ''from'', ''global'', ''if'', ''import'', ''in'', ''is'',
      ''lambda'', ''nonlocal'', ''not'', ''or'', ''pass'', ''raise'', ''return'', ''try'',
      ''while'', ''with'', ''yield'']"

definition is_identifier :: "string \<Rightarrow> bool" where
  "is_identifier s =
     (case s of
        [] \<Rightarrow> False
      | c # cs \<Rightarrow>
          is_letter c \<and> list_all (\<lambda>d. is_letter d \<or> is_digit d) cs
          \<and> s \<notin> set py_keywords)"

definition lookup_name :: "namespaces \<Rightarrow> string \<Rightarrow> error + pyobj" where
  "lookup_name ns name =
     (case frame_locals ns name of
        Some v \<Rightarrow> Inr v
      | None \<Rightarrow>
          (case module_globals ns name of
             Some v \<Rightarrow> Inr v
           | None \<Rightarrow>
               (case builtin_names ns name of
                  Some v \<Rightarrow> Inr v
                | None \<Rightarrow> Inl (NameError (''name '' @ quoted name @ '' is not defined'')))))"

text \<open>\<^verbatim>\<open>eval(src)\<close>; \<open>None\<close> for a string that is not an identifier, whose evaluation
  is not modelled.\<close>

definition eval_name :: "namespaces \<Rightarrow> string \<Rightarrow> (error + pyobj) option" where
  "eval_name ns src = (if is_identifier src then Some (lookup_name ns src) else None)"

text \<open>
  \<^verbatim>\<open>eval(src)(prediction, target)\<close> up to the call: the name of the callable that is
  applied, or the exception raised before it runs. What the callable does with its
  arguments is not modelled.
\<close>

definition select_metric :: "namespaces \<Rightarrow> string \<Rightarrow> (error + string) option" where
  "select_metric ns src =
     (case eval_name ns src of
        None \<Rightarrow> None
      | Some (Inl e) \<Rightarrow> Some (Inl e)
      | Some (Inr (Callable f)) \<Rightarrow> Some (Inr f)
      | Some (Inr v) \<Rightarrow>
          Some (Inl (TypeError (quoted (obj_type_name v) @ '' object is not callable''))))"

subsection \<open>States of the loop and examples\<close>

text \<open>The state of the loop when the first \<open>n\<close> epochs are done.\<close>

definition state_after :: "'a run_env \<Rightarrow> 'a epoch_obs list \<Rightarrow> nat \<Rightarrow> 'a loop_state" where
  "state_after env obs n = training_loop env 0 (take n obs) initial_state"

text \<open>
  A run of three epochs with validation errors 3, 5 and 2; and the names in scope at line
  334 in the first pass of the loop of \<^verbatim>\<open>validate\<close>, in part: the parameters \<^verbatim>\<open>epoch\<close> and
  \<^verbatim>\<open>criterion\<close> and the counter \<^verbatim>\<open>i\<close>, the two imported metrics, one builtin.
\<close>

definition example_env :: "string \<Rightarrow> nat run_env" where
  "example_env ty =
     \<lparr>task_type = ty, checkpoint_dir = ''checkpoints/run'', normalizer_state = 7,
      config_snapshot = 8\<rparr>"

definition example_obs :: "nat epoch_obs list" where
  "example_obs =
     [\<lparr>mae_error = 3, model_state = 10, optimizer_state = 20\<rparr>,
      \<lparr>mae_error = 5, model_state = 11, optimizer_state = 21\<rparr>,
      \<lparr>mae_error = 2, model_state = 12, optimizer_state = 22\<rparr>]"

definition example_names :: namespaces where
  "example_names =
     \<lparr>frame_locals =
        [''epoch'' \<mapsto> IntObj 0, ''i'' \<mapsto> IntObj 0, ''criterion'' \<mapsto> Callable ''L1Loss''],
      module_globals = [''mae'' \<mapsto> Callable ''mae'', ''mae_ratio'' \<mapsto> Callable ''mae_ratio''],
      builtin_names = [''len'' \<mapsto> Callable ''len'']\<rparr>"

section \<open>Properties\<close>

subsection \<open>The split assertion\<close>

lemma split_assert_fails_iff:
  "split_assert ds tr va te = Inl AssertionError \<longleftrightarrow> int (length ds) \<le> tr + va + te"
  by (simp add: split_assert_def)

lemma split_assert_passes_iff:
  "split_assert ds tr va te = Inr () \<longleftrightarrow> tr + va + te < int (length ds)"
  by (simp add: split_assert_def)

text \<open>
  C1. The claim: the assertion fails exactly when the three sizes together exceed the
  length of the dataset, and passes whenever the length equals or exceeds their sum.
  The assertion of the code is strict: on a dataset of 100 samples with sizes 60, 20 and
  20, whose sum the length equals, it fails.
\<close>

theorem split_assert_fails_at_equal_size:
  "split_assert [0..<100] 60 20 20 = Inl AssertionError"
  by (simp add: split_assert_def)

subsection \<open>The three slices\<close>

lemma py_slice_prefix:
  "0 \<le> hi \<Longrightarrow> hi \<le> int (length xs) \<Longrightarrow> py_slice xs None hi = map (\<lambda>i. xs ! i) [0..<nat hi]"
  by (auto simp: py_slice_def clamp_index_def Let_def)

lemma py_slice_range:
  "0 \<le> lo \<Longrightarrow> lo \<le> hi \<Longrightarrow> hi \<le> int (length xs) \<Longrightarrow>
   py_slice xs (Some lo) hi = map (\<lambda>i. xs ! i) [nat lo..<nat hi]"
  by (auto simp: py_slice_def clamp_index_def Let_def)

lemma map_nth_upt_take_drop:
  "j \<le> length xs \<Longrightarrow> map (\<lambda>i. xs ! i) [i..<j] = drop i (take j xs)"
  by (rule nth_equalityI) auto

lemma map_nth_upt_take: "j \<le> length xs \<Longrightarrow> map (\<lambda>i. xs ! i) [0..<j] = take j xs"
  by (simp add: map_nth_upt_take_drop)

lemma three_ranges:
  "map f [0..<a] @ map f [a..<a + b] @ map f [a + b..<a + b + c] = map f [0..<a + b + (c::nat)]"
proof -
  have "[0..<a + b] = [0..<a] @ [a..<a + b]"
    using upt_add_eq_append [of 0 a b] by simp
  moreover have "[0..<a + b + c] = [0..<a + b] @ [a + b..<a + b + c]"
    using upt_add_eq_append [of 0 "a + b" c] by simp
  ultimately have "[0..<a + b + c] = [0..<a] @ [a..<a + b] @ [a + b..<a + b + c]"
    by simp
  then show ?thesis
    by (simp only: map_append [symmetric])
qed

text \<open>
  C8. When the assertion passes and the sizes are not negative, the train, validation and
  test splits are the elements of the shuffled dataset at the positions
  \<open>[0, tr)\<close>, \<open>[tr, tr + va)\<close> and \<open>[tr + va, tr + va + te)\<close>, in that order; together they
  are the first \<open>tr + va + te\<close> elements, each position taken once, and no sample of a
  dataset without repetitions is in two splits.
\<close>

theorem split_contiguous:
  assumes ok: "split_dataset ds tr va te = Inr (train, val, test)"
    and nn: "0 \<le> tr" "0 \<le> va" "0 \<le> te"
  shows "train = map (\<lambda>i. ds ! i) [0..<nat tr]
       \<and> val = map (\<lambda>i. ds ! i) [nat tr..<nat tr + nat va]
       \<and> test = map (\<lambda>i. ds ! i) [nat tr + nat va..<nat tr + nat va + nat te]
       \<and> train @ val @ test = take (nat tr + nat va + nat te) ds
       \<and> (distinct ds \<longrightarrow> distinct (train @ val @ test))"
proof -
  from ok have len: "tr + va + te < int (length ds)"
    by (auto simp: split_dataset_def split_assert_def split: if_splits)
  from ok len have tr: "train = py_slice ds None tr"
    and va: "val = py_slice ds (Some tr) (tr + va)"
    and te: "test = py_slice ds (Some (tr + va)) (tr + va + te)"
    by (auto simp: split_dataset_def split_assert_def split: if_splits)
  have 1: "train = map (\<lambda>i. ds ! i) [0..<nat tr]"
    unfolding tr using nn len by (simp add: py_slice_prefix)
  have 2: "val = map (\<lambda>i. ds ! i) [nat tr..<nat tr + nat va]"
    unfolding va using nn len by (simp add: py_slice_range nat_add_distrib)
  have 3: "test = map (\<lambda>i. ds ! i) [nat tr + nat va..<nat tr + nat va + nat te]"
    unfolding te using nn len by (simp add: py_slice_range nat_add_distrib)
  have le: "nat tr + nat va + nat te \<le> length ds"
    using nn len by linarith
  have 4: "train @ val @ test = take (nat tr + nat va + nat te) ds"
    unfolding 1 2 3 three_ranges using le by (rule map_nth_upt_take)
  have 5: "distinct ds \<longrightarrow> distinct (train @ val @ test)"
    unfolding 4 by simp
  show ?thesis by (intro conjI) (rule 1 2 3 4 5)+
qed


theorem split_contiguous_witness:
  "split_dataset [10, 11, 12, 13, 14, 15, 16 :: nat] 3 2 1 = Inr ([10, 11, 12], [13, 14], [15])
   \<and> [10, 11, 12] @ [13, 14] @ [15] = take 6 [10, 11, 12, 13, 14, 15, 16 :: nat]"
proof -
  have ok: "split_dataset [10, 11, 12, 13, 14, 15, 16 :: nat] 3 2 1 = Inr ([10, 11, 12], [13, 14], [15])"
    by code_simp
  from split_contiguous [OF ok] show ?thesis using ok by simp
qed

subsection \<open>Binary search among the milestones\<close>

lemma bisect_loop_bounds:
  assumes "sorted a" "lo \<le> hi" "hi \<le> length a"
    and "\<forall>i<lo. a ! i \<le> x"
    and "\<forall>i. hi \<le> i \<and> i < length a \<longrightarrow> x < a ! i"
  shows "bisect_loop a x lo hi \<le> length a
       \<and> (\<forall>i<bisect_loop a x lo hi. a ! i \<le> x)
       \<and> (\<forall>i. bisect_loop a x lo hi \<le> i \<and> i < length a \<longrightarrow> x < a ! i)"
  using assms
proof (induction a x lo hi rule: bisect_loop.induct)
  case (1 a x lo hi)
  let ?mid = "(lo + hi) div 2"
  show ?case
  proof (cases "lo < hi")
    case False
    with "1.prems" have "lo = hi" by simp
    with False "1.prems" show ?thesis
      by (subst bisect_loop.simps, subst (2) bisect_loop.simps, subst (3) bisect_loop.simps) simp
  next
    case True
    then have mid: "lo \<le> ?mid" "?mid < hi" by linarith+
    with "1.prems" have midlen: "?mid < length a" by linarith
    show ?thesis
    proof (cases "x < a ! ?mid")
      case left: True
      have up: "\<forall>i. ?mid \<le> i \<and> i < length a \<longrightarrow> x < a ! i"
      proof (intro allI impI)
        fix i assume "?mid \<le> i \<and> i < length a"
        with \<open>sorted a\<close> have "a ! ?mid \<le> a ! i" by (simp add: sorted_nth_mono)
        with left show "x < a ! i" by simp
      qed
      have eq: "bisect_loop a x lo hi = bisect_loop a x lo ?mid"
        using True left by (subst bisect_loop.simps) simp
      from "1.IH"(1) [OF True left \<open>sorted a\<close> mid(1) _ "1.prems"(4) up] midlen
      show ?thesis unfolding eq by simp
    next
      case right: False
      have low: "\<forall>i<?mid + 1. a ! i \<le> x"
      proof (intro allI impI)
        fix i assume "i < ?mid + 1"
        then have "i \<le> ?mid" by simp
        with \<open>sorted a\<close> midlen have "a ! i \<le> a ! ?mid" by (simp add: sorted_nth_mono)
        with right show "a ! i \<le> x" by simp
      qed
      have eq: "bisect_loop a x lo hi = bisect_loop a x (?mid + 1) hi"
        using True right by (subst bisect_loop.simps) simp
      from mid have "?mid + 1 \<le> hi" by simp
      from "1.IH"(2) [OF True right \<open>sorted a\<close> this "1.prems"(3) low "1.prems"(5)]
      show ?thesis unfolding eq by simp
    qed
  qed
qed

lemma filter_le_split:
  fixes a :: "int list"
  assumes "r \<le> length a" "\<forall>i<r. a ! i \<le> x" "\<forall>i. r \<le> i \<and> i < length a \<longrightarrow> x < a ! i"
  shows "length (filter (\<lambda>m. m \<le> x) a) = r"
proof -
  have "filter (\<lambda>m. m \<le> x) (take r a) = take r a"
    using assms by (auto simp: filter_id_conv in_set_conv_nth)
  moreover have "filter (\<lambda>m. m \<le> x) (drop r a) = []"
  proof -
    have "\<not> a ! (r + i) \<le> x" if "i < length a - r" for i
    proof -
      from that have "r \<le> r + i \<and> r + i < length a" by simp
      with assms(3) have "x < a ! (r + i)" by blast
      then show ?thesis by simp
    qed
    then show ?thesis
      by (auto simp: filter_empty_conv in_set_conv_nth)
  qed
  ultimately have "filter (\<lambda>m. m \<le> x) (take r a @ drop r a) = take r a"
    by (simp only: filter_append append_Nil2)
  then show ?thesis using assms(1) by simp
qed

lemma bisect_sorted:
  assumes "sorted a"
  shows "bisect a x = length (filter (\<lambda>m. m \<le> x) a)"
proof -
  have "bisect_loop a x 0 (length a) \<le> length a
       \<and> (\<forall>i<bisect_loop a x 0 (length a). a ! i \<le> x)
       \<and> (\<forall>i. bisect_loop a x 0 (length a) \<le> i \<and> i < length a \<longrightarrow> x < a ! i)"
    by (rule bisect_loop_bounds [OF assms]) simp_all
  then have "length (filter (\<lambda>m. m \<le> x) a) = bisect_loop a x 0 (length a)"
    by (intro filter_le_split) blast+
  then show ?thesis
    unfolding bisect_def by (rule sym)
qed

subsection \<open>The learning-rate multiplier\<close>

lemma lr_lambda_fun_warmup:
  "e \<le> warmup_epochs cfg \<Longrightarrow> warmup_epochs cfg \<noteq> 0 \<Longrightarrow>
   lr_lambda_fun cfg e =
     Inr (warmup_factor cfg
          + (1 - warmup_factor cfg) * (real_of_int e / real_of_int (warmup_epochs cfg)))"
proof -
  have "w * (1 - a) + a = w + (1 - w) * a" for w a :: real
    by (simp add: algebra_simps)
  then show "e \<le> warmup_epochs cfg \<Longrightarrow> warmup_epochs cfg \<noteq> 0 \<Longrightarrow> ?thesis"
    by (simp add: lr_lambda_fun_def Let_def)
qed

lemma lr_lambda_fun_decay:
  "warmup_epochs cfg < e \<Longrightarrow> sorted (lr_milestones cfg) \<Longrightarrow>
   lr_lambda_fun cfg e = Inr (lr_gamma cfg ^ milestones_reached (lr_milestones cfg) e)"
  by (simp add: lr_lambda_fun_def Let_def bisect_sorted milestones_reached_def)

text \<open>
  C2, as stated, fails at an epoch that is a milestone: with milestones 10 and 20, factor
  \<open>1/10\<close> and five warm-up epochs, the multiplier at epoch 10 is \<open>1/10\<close>, while no
  milestone is strictly less than 10.
\<close>

theorem lr_lambda_fun_at_milestone:
  "lr_lambda_fun example_optim 10 = Inr (1 / 10)
   \<and> lr_lambda_fun example_optim 10
       \<noteq> Inr (lr_gamma example_optim ^ spec_milestones_below (lr_milestones example_optim) 10)"
proof -
  have "sorted (lr_milestones example_optim)" by (simp add: example_optim_def)
  moreover have "warmup_epochs example_optim < 10" by (simp add: example_optim_def)
  ultimately have "lr_lambda_fun example_optim 10
      = Inr (lr_gamma example_optim ^ milestones_reached (lr_milestones example_optim) 10)"
    by (rule lr_lambda_fun_decay [rotated])
  then have 1: "lr_lambda_fun example_optim 10 = Inr (1 / 10)"
    by (simp add: example_optim_def milestones_reached_def)
  have 2: "lr_gamma example_optim ^ spec_milestones_below (lr_milestones example_optim) 10 = 1"
    by (simp add: example_optim_def spec_milestones_below_def)
  show ?thesis unfolding 2 using 1 by simp
qed

text \<open>
  C2, amended. The multiplier depends on the four entries of the configuration and the
  epoch only. With \<open>warmup_epochs\<close> other than \<open>0\<close>, at an epoch \<open>e \<le> warmup_epochs\<close> it is
  the linear interpolation \<open>warmup_factor + (1 - warmup_factor) * e / warmup_epochs\<close>,
  which is \<open>warmup_factor\<close> at \<open>e = 0\<close> and \<open>1\<close> at \<open>e = warmup_epochs\<close>. At an epoch
  \<open>e > warmup_epochs\<close>, with the milestones sorted ascending, it is \<open>lr_gamma ^ k\<close> where
  \<open>k\<close> counts the milestones less than or equal to \<open>e\<close>.
\<close>

theorem lr_lambda_fun_schedule:
  "(e \<le> warmup_epochs cfg \<and> warmup_epochs cfg \<noteq> 0 \<longrightarrow>
      lr_lambda_fun cfg e =
        Inr (warmup_factor cfg
             + (1 - warmup_factor cfg) * (real_of_int e / real_of_int (warmup_epochs cfg))))
   \<and> (0 < warmup_epochs cfg \<longrightarrow>
      lr_lambda_fun cfg 0 = Inr (warmup_factor cfg)
      \<and> lr_lambda_fun cfg (warmup_epochs cfg) = Inr 1)
   \<and> (warmup_epochs cfg < e \<and> sorted (lr_milestones cfg) \<longrightarrow>
      lr_lambda_fun cfg e = Inr (lr_gamma cfg ^ milestones_reached (lr_milestones cfg) e))"
proof (intro conjI impI)
  assume "e \<le> warmup_epochs cfg \<and> warmup_epochs cfg \<noteq> 0"
  then show "lr_lambda_fun cfg e =
        Inr (warmup_factor cfg
             + (1 - warmup_factor cfg) * (real_of_int e / real_of_int (warmup_epochs cfg)))"
    by (simp add: lr_lambda_fun_warmup)
next
  assume "0 < warmup_epochs cfg"
  then show "lr_lambda_fun cfg 0 = Inr (warmup_factor cfg)"
    by (simp add: lr_lambda_fun_warmup)
next
  assume "0 < warmup_epochs cfg"
  then show "lr_lambda_fun cfg (warmup_epochs cfg) = Inr 1"
    by (simp add: lr_lambda_fun_warmup)
next
  assume "warmup_epochs cfg < e \<and> sorted (lr_milestones cfg)"
  then show "lr_lambda_fun cfg e = Inr (lr_gamma cfg ^ milestones_reached (lr_milestones cfg) e)"
    by (simp add: lr_lambda_fun_decay)
qed

theorem lr_lambda_fun_schedule_witness:
  "lr_lambda_fun example_optim 3 = Inr (17 / 25)
   \<and> lr_lambda_fun example_optim 0 = Inr (1 / 5)
   \<and> lr_lambda_fun example_optim 5 = Inr 1
   \<and> lr_lambda_fun example_optim 20 = Inr (1 / 100)"
proof -
  have w: "warmup_epochs example_optim = 5" "warmup_factor example_optim = 1 / 5"
    "lr_gamma example_optim = 1 / 10" "lr_milestones example_optim = [10, 20]"
    by (simp_all add: example_optim_def)
  have m: "milestones_reached [10, 20] 20 = 2"
    by (simp add: milestones_reached_def)
  show ?thesis
    using lr_lambda_fun_schedule [of 3 example_optim]
      lr_lambda_fun_schedule [of 20 example_optim]
    by (simp add: w m power2_eq_square)
qed

text \<open>
  C7. With \<open>warmup_epochs = 5\<close> and \<open>warmup_factor = 0.2\<close> the multiplier is \<open>0.2\<close> at
  epoch 0, \<open>1\<close> at epoch 5 and \<open>0.2 + 0.16 * e\<close> at every epoch \<open>e\<close> from 0 to 5; with
  milestones 10 and 20, \<open>lr_gamma = 0.1\<close> and the warm-up over, it is \<open>0.1\<close> at epoch 15
  and \<open>0.01\<close> at epoch 25.
\<close>

theorem lr_lambda_fun_examples:
  "(warmup_epochs cfg = 5 \<and> warmup_factor cfg = 2 / 10 \<longrightarrow>
      lr_lambda_fun cfg 0 = Inr (2 / 10)
      \<and> lr_lambda_fun cfg 5 = Inr 1
      \<and> (\<forall>e. 0 \<le> e \<and> e \<le> 5 \<longrightarrow>
            lr_lambda_fun cfg e = Inr (2 / 10 + (16 / 100) * real_of_int e)))
   \<and> (lr_milestones cfg = [10, 20] \<and> lr_gamma cfg = 1 / 10 \<and> warmup_epochs cfg < 15 \<longrightarrow>
      lr_lambda_fun cfg 15 = Inr (1 / 10)
      \<and> lr_lambda_fun cfg 25 = Inr (1 / 100))"
proof (intro conjI impI allI)
  assume h: "warmup_epochs cfg = 5 \<and> warmup_factor cfg = 2 / 10"
  then show "lr_lambda_fun cfg 0 = Inr (2 / 10)"
    by (simp add: lr_lambda_fun_warmup)
  from h show "lr_lambda_fun cfg 5 = Inr 1"
    by (simp add: lr_lambda_fun_warmup)
  fix e :: int
  assume e: "0 \<le> e \<and> e \<le> 5"
  from h have we: "warmup_epochs cfg = 5" and wf: "warmup_factor cfg = 2 / 10"
    by simp_all
  from e we have "lr_lambda_fun cfg e =
      Inr (warmup_factor cfg
           + (1 - warmup_factor cfg) * (real_of_int e / real_of_int (warmup_epochs cfg)))"
    by (intro lr_lambda_fun_warmup) simp_all
  also have "\<dots> = Inr (2 / 10 + (16 / 100) * real_of_int e)"
    unfolding we wf by simp
  finally show "lr_lambda_fun cfg e = Inr (2 / 10 + (16 / 100) * real_of_int e)" .
next
  assume h: "lr_milestones cfg = [10, 20] \<and> lr_gamma cfg = 1 / 10 \<and> warmup_epochs cfg < 15"
  then have ms: "lr_milestones cfg = [10, 20]" and g: "lr_gamma cfg = 1 / 10"
    and w: "warmup_epochs cfg < 15" "warmup_epochs cfg < 25"
    by simp_all
  have s: "sorted (lr_milestones cfg)" unfolding ms by simp
  have "lr_lambda_fun cfg 15 = Inr (lr_gamma cfg ^ milestones_reached (lr_milestones cfg) 15)"
    using w(1) s by (rule lr_lambda_fun_decay)
  also have "\<dots> = Inr (1 / 10)"
    unfolding ms g by (simp add: milestones_reached_def)
  finally show "lr_lambda_fun cfg 15 = Inr (1 / 10)" .
  have "lr_lambda_fun cfg 25 = Inr (lr_gamma cfg ^ milestones_reached (lr_milestones cfg) 25)"
    using w(2) s by (rule lr_lambda_fun_decay)
  also have "\<dots> = Inr (1 / 100)"
    unfolding ms g by (simp add: milestones_reached_def power2_eq_square)
  finally show "lr_lambda_fun cfg 25 = Inr (1 / 100)" .
qed

theorem lr_lambda_fun_examples_witness:
  "lr_lambda_fun example_optim 0 = Inr (2 / 10)
   \<and> lr_lambda_fun example_optim 5 = Inr 1
   \<and> lr_lambda_fun example_optim 2 = Inr (52 / 100)
   \<and> lr_lambda_fun example_optim 15 = Inr (1 / 10)
   \<and> lr_lambda_fun example_optim 25 = Inr (1 / 100)"
proof -
  have w: "warmup_epochs example_optim = 5" "warmup_factor example_optim = 2 / 10"
    "lr_gamma example_optim = 1 / 10" "lr_milestones example_optim = [10, 20]"
    by (simp_all add: example_optim_def)
  from lr_lambda_fun_examples [of example_optim]
  have a: "lr_lambda_fun example_optim 0 = Inr (2 / 10)
      \<and> lr_lambda_fun example_optim 5 = Inr 1
      \<and> (\<forall>e. 0 \<le> e \<and> e \<le> 5 \<longrightarrow>
            lr_lambda_fun example_optim e = Inr (2 / 10 + (16 / 100) * real_of_int e))"
    and b: "lr_lambda_fun example_optim 15 = Inr (1 / 10)
      \<and> lr_lambda_fun example_optim 25 = Inr (1 / 100)"
    by (simp_all add: w)
  from a have "lr_lambda_fun example_optim 2 = Inr (2 / 10 + (16 / 100) * real_of_int 2)"
    by (elim conjE allE [of _ 2]) simp
  then have "lr_lambda_fun example_optim 2 = Inr (52 / 100)" by simp
  with a b show ?thesis by simp
qed

subsection \<open>The exported rows\<close>

lemma collect_batches_ids: "test_cif_ids (collect_batches bs acc) = test_cif_ids acc"
  by (induction bs arbitrary: acc) (simp_all add: collect_batch_def)

lemma collect_batches_preds:
  "test_preds (collect_batches bs acc) = test_preds acc @ concat (map fst bs)"
  by (induction bs arbitrary: acc) (simp_all add: collect_batch_def)

lemma collect_batches_targets:
  "test_targets (collect_batches bs acc) = test_targets acc @ concat (map snd bs)"
  by (induction bs arbitrary: acc) (simp_all add: collect_batch_def)

lemma test_results_csv_empty: "test_results_csv bs = []"
  by (simp add: test_results_csv_def csv_rows_def collect_batches_ids test_lists_init_def)

text \<open>
  C3. The claim: after the test pass \<^verbatim>\<open>test_results.csv\<close> holds one (id, target,
  prediction) row for each sample of the test set. The list of identifiers is never
  added to, so the \<^verbatim>\<open>zip\<close> of the three lists is empty: on a test pass of two batches
  with three samples, three predictions and three targets are collected and no row is
  written.
\<close>

theorem test_results_csv_no_rows:
  "test_preds (collect_batches [([3 / 2, 5 / 2], [1, 2]), ([7 / 2], [3])] test_lists_init)
     = [3 / 2, 5 / 2, 7 / 2]
   \<and> test_targets (collect_batches [([3 / 2, 5 / 2], [1, 2]), ([7 / 2], [3])] test_lists_init)
     = [1, 2, 3]
   \<and> test_results_csv [([3 / 2, 5 / 2], [1, 2]), ([7 / 2], [3])] = []"
  by (simp add: test_results_csv_empty collect_batch_def test_lists_init_def)

subsection \<open>The configuration merge\<close>

lemma dict_update_keeps_key:
  "map_of c k \<noteq> None \<Longrightarrow> map_of (dict_update c other) k \<noteq> None"
  unfolding dict_update_def
  by (induction other arbitrary: c) (auto simp: update_conv')

lemma update_includes_keeps_key:
  "update_includes files incs c = Inr c' \<Longrightarrow> map_of c k \<noteq> None \<Longrightarrow> map_of c' k \<noteq> None"
proof (induction incs arbitrary: c)
  case Nil
  then show ?case by simp
next
  case (Cons i incs)
  from Cons.prems(1) obtain ic where ic: "files i = Inr ic"
    and rest: "update_includes files incs (dict_update c ic) = Inr c'"
    by (auto split: sum.splits)
  from Cons.prems(2) have "map_of (dict_update c ic) k \<noteq> None"
    by (rule dict_update_keeps_key)
  with rest show ?case by (rule Cons.IH)
qed

lemma merge_config_with_includes:
  assumes "map_of c ''includes'' = Some (YSeq incs)"
    and "update_includes files incs c = Inr c'"
  shows "merge_config files c = Inr (AList.delete ''includes'' c')"
proof -
  from assms have "map_of c' ''includes'' \<noteq> None"
    by (intro update_includes_keeps_key [OF assms(2)]) simp
  with assms show ?thesis
    by (auto simp: merge_config_def dict_get_def dict_pop_def)
qed

lemma map_of_dict_update:
  "map_of (dict_update c other) = map_of c ++ map_of (rev other)"
  unfolding dict_update_def
proof (induction other arbitrary: c)
  case Nil
  then show ?case by simp
next
  case (Cons kv other)
  obtain k v where kv: "kv = (k, v)" by (cases kv)
  show ?case
  proof -
    have "map_of (fold (\<lambda>(k, v). AList.update k v) (kv # other) c)
        = (map_of c)(k \<mapsto> v) ++ map_of (rev other)"
      unfolding kv by (simp add: Cons.IH update_conv' fun_upd_def)
    also have "(map_of c)(k \<mapsto> v) = map_of c ++ [k \<mapsto> v]"
      by simp
    also have "map_of c ++ [k \<mapsto> v] ++ map_of (rev other)
        = map_of c ++ map_of (rev (kv # other))"
      unfolding kv by (simp add: map_add_assoc del: map_add_upd)
    finally show ?thesis .
  qed
qed

lemma merge_config_no_includes:
  assumes "map_of c ''includes'' = None"
  shows "merge_config files c = Inl (KeyError ''includes'')"
  using assms by (simp add: merge_config_def dict_get_def dict_pop_def)

text \<open>
  C4. The claim: the merge succeeds for every base configuration, also for one without
  an \<^verbatim>\<open>includes\<close> key. The default of \<^verbatim>\<open>config.get("includes", [])\<close> covers the absent
  key, but \<^verbatim>\<open>config.pop("includes")\<close> has no default: on a configuration without the
  key the merge raises \<^verbatim>\<open>KeyError\<close>.
\<close>

theorem merge_config_without_includes:
  "merge_config files [(''task'', YMap [(''dataset'', YStr ''qm9'')])]
     = Inl (KeyError ''includes'')"
  by (simp add: merge_config_def dict_get_def dict_pop_def)

subsection \<open>Messages of the configuration errors\<close>

lemma merge_config_bad_includes:
  assumes "map_of c ''includes'' = Some v" and "\<forall>incs. v \<noteq> YSeq incs"
  shows "merge_config files c
       = Inl (AttributeError (''Includes must be a list, '' @ type_repr v @ '' provided''))"
  using assms by (cases v) (simp_all add: merge_config_def dict_get_def)

lemma select_metric_unbound:
  assumes "is_identifier name"
    and "frame_locals ns name = None" "module_globals ns name = None"
    and "builtin_names ns name = None"
  shows "select_metric ns name
       = Some (Inl (NameError (''name '' @ quoted name @ '' is not defined'')))"
  using assms by (simp add: select_metric_def eval_name_def lookup_name_def)

lemma select_metric_not_callable:
  assumes "is_identifier name" and "frame_locals ns name = Some (IntObj n)"
  shows "select_metric ns name
       = Some (Inl (TypeError (quoted ''int'' @ '' object is not callable'')))"
  using assms by (simp add: select_metric_def eval_name_def lookup_name_def)

lemma is_identifier_epoch: "is_identifier ''epoch''"
  by (simp add: is_identifier_def is_letter_def is_digit_def py_keywords_def)

lemma is_identifier_rmse: "is_identifier ''rmse''"
  by (simp add: is_identifier_def is_letter_def is_digit_def py_keywords_def)

lemma not_an_identifier: "\<not> is_identifier ''mae-ratio''" "\<not> is_identifier ''mae ratio''"
  by (simp_all add: is_identifier_def is_letter_def is_digit_def py_keywords_def)

text \<open>
  C9, as stated, fails twice. The error for an unrecognized dataset is a bare
  \<^verbatim>\<open>NotImplementedError\<close>, whose message is empty and does not hold the name. And a metric
  name that is bound to something else, as the name \<^verbatim>\<open>epoch\<close> of the parameter of
  \<^verbatim>\<open>validate\<close> is, fails at the call with a \<^verbatim>\<open>TypeError\<close> whose message holds neither the
  name nor the type of the configured value, a string.
\<close>

theorem configuration_errors_without_value:
  "select_dataset ''imagenet'' = Inl (NotImplementedError [])
   \<and> \<not> sublist ''imagenet'' []
   \<and> select_metric example_names ''epoch''
     = Some (Inl (TypeError (quoted ''int'' @ '' object is not callable'')))
   \<and> \<not> sublist ''epoch'' (quoted ''int'' @ '' object is not callable'')
   \<and> \<not> sublist ''str'' (quoted ''int'' @ '' object is not callable'')"
proof -
  have 1: "select_dataset ''imagenet'' = Inl (NotImplementedError [])"
    by (simp add: select_dataset_def)
  have 2: "\<not> sublist ''imagenet'' []"
    by simp
  have "frame_locals example_names ''epoch'' = Some (IntObj 0)"
    by (simp add: example_names_def)
  with is_identifier_epoch
  have 3: "select_metric example_names ''epoch''
      = Some (Inl (TypeError (quoted ''int'' @ '' object is not callable'')))"
    by (rule select_metric_not_callable)
  have 4: "\<not> sublist ''epoch'' (quoted ''int'' @ '' object is not callable'')"
    by (simp add: quoted_def sublist_code)
  have 5: "\<not> sublist ''str'' (quoted ''int'' @ '' object is not callable'')"
    by (simp add: quoted_def sublist_code)
  from 1 2 3 4 5 show ?thesis by (intro conjI)
qed

text \<open>
  C9, amended. An \<^verbatim>\<open>includes\<close> entry that is not a list raises \<^verbatim>\<open>AttributeError\<close> with
  the type of the entry in the message; a metric name that is an identifier bound in none
  of the scopes that \<^verbatim>\<open>eval\<close> searches (local, module, builtin) raises \<^verbatim>\<open>NameError\<close> with
  the name in the message; a dataset name other than the three known ones raises
  \<^verbatim>\<open>NotImplementedError\<close> without a message.
\<close>

theorem configuration_error_messages:
  "(map_of c ''includes'' = Some v \<and> (\<forall>incs. v \<noteq> YSeq incs) \<longrightarrow>
      (\<exists>msg. merge_config files c = Inl (AttributeError msg) \<and> sublist (type_repr v) msg))
   \<and> (is_identifier name \<and> frame_locals ns name = None \<and> module_globals ns name = None
        \<and> builtin_names ns name = None \<longrightarrow>
      (\<exists>msg. select_metric ns name = Some (Inl (NameError msg)) \<and> sublist name msg))
   \<and> (dname \<noteq> ''ulissigroup_co'' \<and> dname \<noteq> ''xie_grossman_mat_proj'' \<and> dname \<noteq> ''qm9'' \<longrightarrow>
      select_dataset dname = Inl (NotImplementedError []))"
proof (intro conjI impI)
  assume "map_of c ''includes'' = Some v \<and> (\<forall>incs. v \<noteq> YSeq incs)"
  then have "merge_config files c
      = Inl (AttributeError (''Includes must be a list, '' @ type_repr v @ '' provided''))"
    by (intro merge_config_bad_includes) simp_all
  moreover have "sublist (type_repr v) (''Includes must be a list, '' @ type_repr v @ '' provided'')"
    by (rule sublist_appendI)
  ultimately show "\<exists>msg. merge_config files c = Inl (AttributeError msg) \<and> sublist (type_repr v) msg"
    by blast
next
  assume "is_identifier name \<and> frame_locals ns name = None \<and> module_globals ns name = None
      \<and> builtin_names ns name = None"
  then have "select_metric ns name
      = Some (Inl (NameError (''name '' @ quoted name @ '' is not defined'')))"
    by (intro select_metric_unbound) simp_all
  moreover have "sublist name ((''name '' @ [CHR 0x27]) @ name @ ([CHR 0x27] @ '' is not defined''))"
    by (rule sublist_appendI)
  then have "sublist name (''name '' @ quoted name @ '' is not defined'')"
    by (simp add: quoted_def)
  ultimately show "\<exists>msg. select_metric ns name = Some (Inl (NameError msg)) \<and> sublist name msg"
    by blast
next
  assume "dname \<noteq> ''ulissigroup_co'' \<and> dname \<noteq> ''xie_grossman_mat_proj'' \<and> dname \<noteq> ''qm9''"
  then show "select_dataset dname = Inl (NotImplementedError [])"
    by (simp add: select_dataset_def)
qed

theorem configuration_error_messages_witness:
  "(\<exists>msg. merge_config (\<lambda>_. Inl (FileNotFoundError ''extra.yml''))
            [(''includes'', YStr ''extra.yml'')] = Inl (AttributeError msg)
          \<and> sublist (type_repr (YStr ''extra.yml'')) msg)
   \<and> (\<exists>msg. select_metric example_names ''rmse'' = Some (Inl (NameError msg))
          \<and> sublist ''rmse'' msg)
   \<and> select_dataset ''imagenet'' = Inl (NotImplementedError [])"
  using configuration_error_messages
    [of "[(''includes'', YStr ''extra.yml'')]" "YStr ''extra.yml''"
        "\<lambda>_. Inl (FileNotFoundError ''extra.yml'')"
        "''rmse''" example_names "''imagenet''"]
    is_identifier_rmse
  by (simp add: example_names_def)

lemma example_messages:
  "merge_config files [(''includes'', YStr ''extra.yml'')]
     = Inl (AttributeError (''Includes must be a list, <class '' @ quoted ''str'' @ ''> provided''))"
  "select_metric example_names ''rmse''
     = Some (Inl (NameError (''name '' @ quoted ''rmse'' @ '' is not defined'')))"
  "select_metric example_names ''mae_ratio'' = Some (Inr ''mae_ratio'')"
  "select_metric example_names ''criterion'' = Some (Inr ''L1Loss'')"
  "select_metric example_names ''mae-ratio'' = None"
  by (simp_all add: merge_config_def dict_get_def type_repr_def select_metric_def eval_name_def
      lookup_name_def example_names_def is_identifier_def is_letter_def is_digit_def py_keywords_def)

subsection \<open>The training loop\<close>

lemma training_loop_append:
  "training_loop env e (xs @ ys) s = training_loop env (e + length xs) ys (training_loop env e xs s)"
  by (induction xs arbitrary: e s) simp_all

lemma state_after_Suc:
  assumes "i < length obs"
  shows "state_after env obs (Suc i) = epoch_step env i (obs ! i) (state_after env obs i)"
proof -
  from assms have "take (Suc i) obs = take i obs @ [obs ! i]"
    by (rule take_Suc_conv_app_nth)
  moreover from assms have "length (take i obs) = i" by simp
  ultimately show ?thesis
    by (simp add: state_after_def training_loop_append)
qed

lemma files_differ: "checkpoint_file d \<noteq> best_file d"
  by (simp add: checkpoint_file_def best_file_def path_join_def)

lemma epoch_step_best:
  "best_mae_error (epoch_step env e ob s)
     = snd (remember_best (task_type env) (mae_error ob) (best_mae_error s))"
  by (simp add: epoch_step_def split: prod.splits)

lemma epoch_step_written:
  "written (epoch_step env e ob s)
     = written s
       @ (checkpoint_file (checkpoint_dir env),
          checkpoint_record env e ob (best_mae_error (epoch_step env e ob s)))
       # (if fst (remember_best (task_type env) (mae_error ob) (best_mae_error s))
          then [(best_file (checkpoint_dir env),
                 checkpoint_record env e ob (best_mae_error (epoch_step env e ob s)))]
          else [])"
  by (simp add: epoch_step_def save_checkpoint_def split: prod.splits)

lemma remember_best_fst:
  "fst (remember_best ty mae best) = (if ty = ''regression'' then mae < best else best < mae)"
  by (simp add: remember_best_def)

lemma remember_best_snd:
  "snd (remember_best ty mae best) = (if ty = ''regression'' then min mae best else max mae best)"
  by (simp add: remember_best_def)

text \<open>
  C6. In every epoch of the loop: for the task type \<^verbatim>\<open>regression\<close> the epoch is marked
  \<open>is_best\<close> exactly when its validation metric is strictly smaller than the best so far,
  and the best so far becomes the minimum of the two; for any other task type it is marked
  exactly when the metric is strictly larger, and the best so far becomes the maximum.
\<close>

theorem is_best_direction:
  assumes "i < length obs"
  shows "(task_type env = ''regression'' \<longrightarrow>
            fst (remember_best (task_type env) (mae_error (obs ! i))
                   (best_mae_error (state_after env obs i)))
              = (mae_error (obs ! i) < best_mae_error (state_after env obs i))
            \<and> best_mae_error (state_after env obs (Suc i))
              = min (mae_error (obs ! i)) (best_mae_error (state_after env obs i)))
       \<and> (task_type env \<noteq> ''regression'' \<longrightarrow>
            fst (remember_best (task_type env) (mae_error (obs ! i))
                   (best_mae_error (state_after env obs i)))
              = (best_mae_error (state_after env obs i) < mae_error (obs ! i))
            \<and> best_mae_error (state_after env obs (Suc i))
              = max (mae_error (obs ! i)) (best_mae_error (state_after env obs i)))"
  unfolding state_after_Suc [OF assms] epoch_step_best remember_best_fst remember_best_snd
  by simp

lemma example_best_1:
  "best_mae_error (state_after (example_env ty) example_obs (Suc 0))
     = (if ty = ''regression'' then 3 else 10 ^ 10)"
  by (simp add: state_after_def example_obs_def example_env_def initial_state_def
      epoch_step_def remember_best_def)

theorem is_best_direction_witness:
  "1 < length example_obs
   \<and> \<not> fst (remember_best ''regression'' 5 3)
   \<and> best_mae_error (state_after (example_env ''regression'') example_obs 2) = 3
   \<and> \<not> fst (remember_best ''classification'' 5 (10 ^ 10))
   \<and> best_mae_error (state_after (example_env ''classification'') example_obs 2) = 10 ^ 10"
proof -
  have len: "1 < length example_obs" by (simp add: example_obs_def)
  have ob: "mae_error (example_obs ! Suc 0) = 5" by (simp add: example_obs_def)
  have ty: "task_type (example_env ty) = ty" for ty by (simp add: example_env_def)
  from is_best_direction [OF len, of "example_env ''regression''"]
    is_best_direction [OF len, of "example_env ''classification''"]
  show ?thesis
    by (simp add: len [unfolded One_nat_def] ob ty example_best_1 numeral_2_eq_2)
qed

lemma never_best:
  assumes "task_type env \<noteq> ''regression''"
    and "\<forall>ob\<in>set obs. mae_error ob \<le> best_mae_error s"
    and "best_file (checkpoint_dir env) \<notin> fst ` set (written s)"
  shows "best_mae_error (training_loop env e obs s) = best_mae_error s
       \<and> best_file (checkpoint_dir env) \<notin> fst ` set (written (training_loop env e obs s))"
  using assms(2,3)
proof (induction obs arbitrary: e s)
  case Nil
  then show ?case by simp
next
  case (Cons ob obs)
  from Cons.prems(1) have le: "mae_error ob \<le> best_mae_error s" by simp
  with assms(1) have b: "best_mae_error (epoch_step env e ob s) = best_mae_error s"
    by (simp add: epoch_step_best remember_best_snd)
  from le assms(1) have w: "written (epoch_step env e ob s)
      = written s @ [(checkpoint_file (checkpoint_dir env),
                      checkpoint_record env e ob (best_mae_error (epoch_step env e ob s)))]"
    by (simp add: epoch_step_written remember_best_fst)
  have nb: "best_file (checkpoint_dir env) \<notin> fst ` set (written (epoch_step env e ob s))"
    unfolding w using Cons.prems(2) files_differ [of "checkpoint_dir env"] by auto
  from Cons.prems(1) have all: "\<forall>x\<in>set obs. mae_error x \<le> best_mae_error (epoch_step env e ob s)"
    unfolding b by simp
  from Cons.IH [OF all nb, of "Suc e"] show ?case
    unfolding b by simp
qed

lemma torch_load_missing:
  "path \<notin> fst ` set ws \<Longrightarrow> torch_load ws path = Inl (FileNotFoundError path)"
proof -
  assume "path \<notin> fst ` set ws"
  then have "path \<notin> fst ` set (rev ws)" by simp
  then have "map_of (rev ws) path = None" by (simp add: map_of_eq_None_iff)
  then show ?thesis by (simp add: torch_load_def)
qed

lemma state_after_0: "state_after env obs 0 = initial_state"
  by (simp add: state_after_def)

lemma first_epoch_state:
  assumes "obs \<noteq> []"
  shows "state_after env obs (Suc 0) = epoch_step env 0 (obs ! 0) initial_state"
proof -
  from assms have "0 < length obs" by simp
  then have "state_after env obs (Suc 0) = epoch_step env 0 (obs ! 0) (state_after env obs 0)"
    by (rule state_after_Suc)
  then show ?thesis by (simp only: state_after_0)
qed

lemma first_epoch_best_file:
  assumes "obs \<noteq> []"
  shows "best_file (checkpoint_dir env) \<in> fst ` set (written (state_after env obs (Suc 0)))
       \<longleftrightarrow> fst (remember_best (task_type env) (mae_error (obs ! 0)) (10 ^ 10))"
  unfolding first_epoch_state [OF assms] epoch_step_written
  using files_differ [of "checkpoint_dir env"]
  by (auto simp: initial_state_def)

lemma first_epoch_best_value:
  assumes "obs \<noteq> []"
  shows "best_mae_error (state_after env obs (Suc 0))
       = snd (remember_best (task_type env) (mae_error (obs ! 0)) (10 ^ 10))"
  unfolding first_epoch_state [OF assms] epoch_step_best
  by (simp add: initial_state_def)

text \<open>
  C10, as stated, fails for a regression run whose first validation metric is not below
  \<open>10^10\<close>: at exactly \<open>10^10\<close> the first epoch is not marked, only the per-epoch file is
  written, and the reload of the best checkpoint after this one epoch finds no file.
\<close>

theorem first_epoch_not_best_at_1e10:
  "\<not> fst (remember_best ''regression'' (10 ^ 10) (10 ^ 10))
   \<and> written (state_after (example_env ''regression'')
        [\<lparr>mae_error = 10 ^ 10, model_state = 10, optimizer_state = 20\<rparr>] 1)
     = [(''checkpoints/run/checkpoint.pth.tar'',
         [(''epoch'', CkInt 1), (''state_dict'', CkBlob 10),
          (''best_mae_error'', CkFloat (10 ^ 10)), (''optimizer'', CkBlob 20),
          (''normalizer'', CkBlob 7), (''config'', CkBlob 8)])]
   \<and> train_and_reload (example_env ''regression'')
        [\<lparr>mae_error = 10 ^ 10, model_state = 10, optimizer_state = 20\<rparr>]
     = Inl (FileNotFoundError ''checkpoints/run/model_best.pth.tar'')"
  by (simp add: state_after_def train_and_reload_def torch_load_def example_env_def
      initial_state_def epoch_step_def remember_best_def save_checkpoint_def
      checkpoint_record_def checkpoint_file_def best_file_def path_join_def)

text \<open>
  C10, amended. The best so far starts at \<open>10^10\<close> whatever the task type. In a run of at
  least one epoch, for a regression task the first epoch is marked \<open>is_best\<close>, and its
  best copy written, exactly when its validation metric is below \<open>10^10\<close>; for any other
  task type exactly when its metric exceeds \<open>10^10\<close>. When no metric of a run of another
  task type exceeds \<open>10^10\<close>, no epoch writes a best copy and the reload of the best
  checkpoint finds no file.
\<close>

theorem best_starts_at_1e10:
  fixes env :: "'a run_env"
  shows "best_mae_error (state_after env obs 0) = 10 ^ 10
       \<and> (obs \<noteq> [] \<and> task_type env = ''regression'' \<longrightarrow>
            (best_file (checkpoint_dir env) \<in> fst ` set (written (state_after env obs (Suc 0)))
               \<longleftrightarrow> mae_error (obs ! 0) < 10 ^ 10)
            \<and> best_mae_error (state_after env obs (Suc 0)) = min (mae_error (obs ! 0)) (10 ^ 10))
       \<and> (obs \<noteq> [] \<and> task_type env \<noteq> ''regression'' \<longrightarrow>
            (best_file (checkpoint_dir env) \<in> fst ` set (written (state_after env obs (Suc 0)))
               \<longleftrightarrow> 10 ^ 10 < mae_error (obs ! 0))
            \<and> best_mae_error (state_after env obs (Suc 0)) = max (mae_error (obs ! 0)) (10 ^ 10))
       \<and> (task_type env \<noteq> ''regression'' \<and> (\<forall>ob\<in>set obs. mae_error ob \<le> 10 ^ 10) \<longrightarrow>
            best_file (checkpoint_dir env)
              \<notin> fst ` set (written (training_loop env 0 obs initial_state))
            \<and> train_and_reload env obs
              = Inl (FileNotFoundError (best_file (checkpoint_dir env))))"
proof (intro conjI impI)
  have i: "best_mae_error (initial_state :: 'a loop_state) = 10 ^ 10"
    by (simp add: initial_state_def)
  show "best_mae_error (state_after env obs 0) = 10 ^ 10"
    by (simp only: state_after_0 i)
  show "best_file (checkpoint_dir env) \<in> fst ` set (written (state_after env obs (Suc 0)))
      \<longleftrightarrow> mae_error (obs ! 0) < 10 ^ 10"
    if "obs \<noteq> [] \<and> task_type env = ''regression''"
    using that by (simp add: first_epoch_best_file remember_best_fst)
  show "best_mae_error (state_after env obs (Suc 0)) = min (mae_error (obs ! 0)) (10 ^ 10)"
    if "obs \<noteq> [] \<and> task_type env = ''regression''"
    using that by (simp add: first_epoch_best_value remember_best_snd)
  show "best_file (checkpoint_dir env) \<in> fst ` set (written (state_after env obs (Suc 0)))
      \<longleftrightarrow> 10 ^ 10 < mae_error (obs ! 0)"
    if "obs \<noteq> [] \<and> task_type env \<noteq> ''regression''"
    using that by (simp add: first_epoch_best_file remember_best_fst)
  show "best_mae_error (state_after env obs (Suc 0)) = max (mae_error (obs ! 0)) (10 ^ 10)"
    if "obs \<noteq> [] \<and> task_type env \<noteq> ''regression''"
    using that by (simp add: first_epoch_best_value remember_best_snd)
  assume h: "task_type env \<noteq> ''regression'' \<and> (\<forall>ob\<in>set obs. mae_error ob \<le> 10 ^ 10)"
  then have ty: "task_type env \<noteq> ''regression''"
    and all: "\<forall>ob\<in>set obs. mae_error ob \<le> best_mae_error (initial_state :: 'a loop_state)"
    unfolding i by simp_all
  have fresh: "best_file (checkpoint_dir env) \<notin> fst ` set (written (initial_state :: 'a loop_state))"
    by (simp add: initial_state_def)
  from never_best [OF ty all fresh, of 0]
  show nb: "best_file (checkpoint_dir env)
      \<notin> fst ` set (written (training_loop env 0 obs initial_state))"
    by simp
  show "train_and_reload env obs = Inl (FileNotFoundError (best_file (checkpoint_dir env)))"
    unfolding train_and_reload_def using nb by (rule torch_load_missing)
qed

theorem best_starts_at_1e10_witness:
  "example_obs \<noteq> []
   \<and> ''checkpoints/run/model_best.pth.tar''
       \<in> fst ` set (written (state_after (example_env ''regression'') example_obs (Suc 0)))
   \<and> best_mae_error (state_after (example_env ''regression'') example_obs (Suc 0)) = 3
   \<and> ''checkpoints/run/model_best.pth.tar''
       \<notin> fst ` set (written (state_after (example_env ''classification'') example_obs (Suc 0)))
   \<and> best_mae_error (state_after (example_env ''classification'') example_obs (Suc 0)) = 10 ^ 10
   \<and> train_and_reload (example_env ''classification'') example_obs
     = Inl (FileNotFoundError ''checkpoints/run/model_best.pth.tar'')"
proof -
  have ne: "example_obs \<noteq> []" by (simp add: example_obs_def)
  have ty: "task_type (example_env ty) = ty" for ty by (simp add: example_env_def)
  have d: "best_file (checkpoint_dir (example_env ty)) = ''checkpoints/run/model_best.pth.tar''"
    for ty by (simp add: example_env_def best_file_def path_join_def)
  have ob: "mae_error (example_obs ! 0) = 3" by (simp add: example_obs_def)
  have all: "\<forall>ob\<in>set example_obs. mae_error ob \<le> 10 ^ 10"
    by (simp add: example_obs_def)
  from best_starts_at_1e10 [of "example_env ''regression''" example_obs]
    best_starts_at_1e10 [of "example_env ''classification''" example_obs]
  show ?thesis
    unfolding ty d ob using all ne by simp
qed

text \<open>
  C5. At the end of every epoch one checkpoint record is written, with exactly the keys
  \<^verbatim>\<open>epoch\<close>, \<^verbatim>\<open>state_dict\<close>, \<^verbatim>\<open>best_mae_error\<close>, \<^verbatim>\<open>optimizer\<close>, \<^verbatim>\<open>normalizer\<close> and
  \<^verbatim>\<open>config\<close> (the number of the epoch, the parameters of the model, the best metric so
  far, the states of the optimizer and of the normalizer, the configuration); the same
  record is written a second time, as the best copy, exactly when the metric of the epoch
  improves on the best so far.
\<close>

theorem checkpoint_written_every_epoch:
  assumes "i < length obs"
  shows "written (state_after env obs (Suc i))
       = written (state_after env obs i)
         @ (checkpoint_file (checkpoint_dir env),
            [(''epoch'', CkInt (int i + 1)),
             (''state_dict'', CkBlob (model_state (obs ! i))),
             (''best_mae_error'', CkFloat (best_mae_error (state_after env obs (Suc i)))),
             (''optimizer'', CkBlob (optimizer_state (obs ! i))),
             (''normalizer'', CkBlob (normalizer_state env)),
             (''config'', CkBlob (config_snapshot env))])
         # (if (if task_type env = ''regression''
                then mae_error (obs ! i) < best_mae_error (state_after env obs i)
                else best_mae_error (state_after env obs i) < mae_error (obs ! i))
            then [(best_file (checkpoint_dir env),
                   [(''epoch'', CkInt (int i + 1)),
                    (''state_dict'', CkBlob (model_state (obs ! i))),
                    (''best_mae_error'', CkFloat (best_mae_error (state_after env obs (Suc i)))),
                    (''optimizer'', CkBlob (optimizer_state (obs ! i))),
                    (''normalizer'', CkBlob (normalizer_state env)),
                    (''config'', CkBlob (config_snapshot env))])]
            else [])"
  unfolding state_after_Suc [OF assms] epoch_step_written remember_best_fst
    checkpoint_record_def ..

lemma example_state_1:
  "state_after (example_env ''regression'') example_obs 1
     = \<lparr>best_mae_error = 3,
        written =
          [(''checkpoints/run/checkpoint.pth.tar'',
            [(''epoch'', CkInt 1), (''state_dict'', CkBlob 10), (''best_mae_error'', CkFloat 3),
             (''optimizer'', CkBlob 20), (''normalizer'', CkBlob 7), (''config'', CkBlob 8)]),
           (''checkpoints/run/model_best.pth.tar'',
            [(''epoch'', CkInt 1), (''state_dict'', CkBlob 10), (''best_mae_error'', CkFloat 3),
             (''optimizer'', CkBlob 20), (''normalizer'', CkBlob 7), (''config'', CkBlob 8)])]\<rparr>"
  by (simp add: state_after_def example_obs_def example_env_def initial_state_def
      epoch_step_def remember_best_def save_checkpoint_def checkpoint_record_def
      checkpoint_file_def best_file_def path_join_def)

theorem checkpoint_written_every_epoch_witness:
  "1 < length example_obs
   \<and> best_mae_error (state_after (example_env ''regression'') example_obs 2) = 3
   \<and> written (state_after (example_env ''regression'') example_obs 2)
     = written (state_after (example_env ''regression'') example_obs 1)
       @ [(''checkpoints/run/checkpoint.pth.tar'',
           [(''epoch'', CkInt 2), (''state_dict'', CkBlob 11), (''best_mae_error'', CkFloat 3),
            (''optimizer'', CkBlob 21), (''normalizer'', CkBlob 7), (''config'', CkBlob 8)])]"
proof -
  have len: "1 < length example_obs" by (simp add: example_obs_def)
  have b2: "best_mae_error (state_after (example_env ''regression'') example_obs 2) = 3"
    by (simp add: state_after_def example_obs_def example_env_def initial_state_def
        epoch_step_def remember_best_def)
  have ob: "example_obs ! 1 = \<lparr>mae_error = 5, model_state = 11, optimizer_state = 21\<rparr>"
    by (simp add: example_obs_def)
  have env: "task_type (example_env ''regression'') = ''regression''"
    "checkpoint_dir (example_env ''regression'') = ''checkpoints/run''"
    "normalizer_state (example_env ''regression'') = 7"
    "config_snapshot (example_env ''regression'') = 8"
    by (simp_all add: example_env_def)
  have two: "Suc 1 = 2" by simp
  from checkpoint_written_every_epoch [OF len, of "example_env ''regression''"]
  show ?thesis
    unfolding two b2 ob env
    by (simp add: len [unfolded One_nat_def] b2 example_state_1 [unfolded One_nat_def]
        checkpoint_file_def path_join_def)
qed

end
